theory Spec2Isabelle
  imports Main "HOL-Library.Word" "HOL-Library.Monad_Syntax"
begin

unbundle bit_operations_syntax

section \<open>Data model of \<open>alloc.c\<close>\<close>

text \<open>
  The allocator is C code for an LP64 platform: \<open>size_t\<close> and pointers are 64-bit
  words, \<open>int\<close> is a 32-bit word, and all arithmetic on them wraps around. The null
  pointer is the address 0.
\<close>

type_synonym addr = "64 word"
type_synonym size_t = "64 word"
type_synonym c_int = "32 word"

abbreviation NULL :: addr where
  "NULL \<equiv> 0"

text \<open>
  The block header \<open>free_block\<close>. The fields are called \<open>size\<close> and \<open>next\<close> in
  the source; they carry a suffix here because \<open>size\<close> is a constant of HOL.
\<close>

record free_block =
  size_fb :: size_t
  next_fb :: addr

text \<open>
  Modelled from the spec: the header \<open>alloc.h\<close>, which declares \<open>free_block\<close>, is
  missing. The spec's Block has the attributes \<open>size\<close> and \<open>next\<close>, a \<open>size_t\<close>
  and a pointer, so that \<open>sizeof(free_block)\<close>, the spec's \<open>header_size\<close>, is 16
  bytes on LP64.
\<close>

definition sizeof_free_block :: size_t where
  "sizeof_free_block = 16"

definition ALIGNMENT :: size_t where
  "ALIGNMENT = 16"

definition SIZE_MAX :: size_t where
  "SIZE_MAX = - 1"

text \<open>
  The process-wide state: the two globals \<open>HEAD\<close> and \<open>next_fit_ptr\<close>, the block
  headers in memory (a typed heap: the header stored at each address; headers at
  different addresses are taken not to overlap, and a read at any address returns what
  is stored there), the payload bytes that \<open>memset\<close> and \<open>memcpy\<close> write, and the
  program break with the limit up to which the operating system grants memory.
\<close>

record alloc_state =
  HEAD :: addr
  next_fit_ptr :: addr
  heap :: "addr \<Rightarrow> free_block"
  bytes :: "addr \<Rightarrow> 8 word"
  brk :: addr
  brk_max :: addr

text \<open>The assignments \<open>p->size = v\<close> and \<open>p->next = v\<close>.\<close>

definition set_size :: "(addr \<Rightarrow> free_block) \<Rightarrow> addr \<Rightarrow> size_t \<Rightarrow> addr \<Rightarrow> free_block" where
  "set_size h p v = h(p := (h p)\<lparr>size_fb := v\<rparr>)"

definition set_next :: "(addr \<Rightarrow> free_block) \<Rightarrow> addr \<Rightarrow> addr \<Rightarrow> addr \<Rightarrow> free_block" where
  "set_next h p v = h(p := (h p)\<lparr>next_fb := v\<rparr>)"

text \<open>
  Modelled from the spec: the program-break primitive of the environment, "extend arena
  by N bytes, return previous boundary or failure sentinel". The sentinel is
  \<open>(void *)-1\<close>; the request fails when the new break would pass \<open>brk_max\<close>.
\<close>

definition sbrk :: "alloc_state \<Rightarrow> size_t \<Rightarrow> alloc_state \<times> addr" where
  "sbrk s incr =
     (if unat (brk s) + unat incr \<le> unat (brk_max s)
      then (s\<lparr>brk := brk s + incr\<rparr>, brk s)
      else (s, - 1))"

text \<open>\<open>memset(p, v, n)\<close> and \<open>memcpy(dst, src, n)\<close> on the payload bytes.\<close>

definition memset :: "(addr \<Rightarrow> 8 word) \<Rightarrow> addr \<Rightarrow> 8 word \<Rightarrow> size_t \<Rightarrow> addr \<Rightarrow> 8 word" where
  "memset m p v n = (\<lambda>a. if a - p < n then v else m a)"

definition memcpy :: "(addr \<Rightarrow> 8 word) \<Rightarrow> addr \<Rightarrow> addr \<Rightarrow> size_t \<Rightarrow> addr \<Rightarrow> 8 word" where
  "memcpy m dst src n = (\<lambda>a. if a - dst < n then m (src + (a - dst)) else m a)"

section \<open>The Block Splitter\<close>

text \<open>
  \<open>split(block, size)\<close>. The parameter \<open>size\<close> is an \<open>int\<close>: in the comparison, the
  pointer arithmetic and the subtraction it is converted to \<open>size_t\<close> by sign extension.
  The three field writes happen in the source's order.
\<close>

definition split :: "alloc_state \<Rightarrow> addr \<Rightarrow> c_int \<Rightarrow> alloc_state \<times> addr" where
  "split s block sz =
     (if size_fb (heap s block) < scast sz + sizeof_free_block then (s, NULL)
      else
        let new_block = block + scast sz + sizeof_free_block;
            h1 = set_size (heap s) new_block
                   (size_fb (heap s block) - scast sz - sizeof_free_block);
            h2 = set_next h1 new_block (next_fb (h1 block));
            h3 = set_size h2 block (scast sz)
        in (s\<lparr>heap := h3\<rparr>, block))"

section \<open>The Neighbor Locator and the Free List\<close>

text \<open>
  The loops walk the \<open>next\<close> links until \<open>NULL\<close>; on a cyclic list they do not
  return, which is the value \<open>None\<close>.
\<close>

partial_function (option) find_prev_loop :: "(addr \<Rightarrow> free_block) \<Rightarrow> addr \<Rightarrow> addr \<Rightarrow> addr option" where
  "find_prev_loop h block cur =
     (if cur \<noteq> NULL then
        (if cur + size_fb (h cur) + sizeof_free_block = block then Some cur
         else find_prev_loop h block (next_fb (h cur)))
      else Some NULL)"

definition find_prev :: "alloc_state \<Rightarrow> addr \<Rightarrow> addr option" where
  "find_prev s block = find_prev_loop (heap s) block (HEAD s)"

partial_function (option) find_next_loop :: "(addr \<Rightarrow> free_block) \<Rightarrow> addr \<Rightarrow> addr \<Rightarrow> addr option" where
  "find_next_loop h block_end cur =
     (if cur \<noteq> NULL then
        (if cur = block_end then Some cur
         else find_next_loop h block_end (next_fb (h cur)))
      else Some NULL)"

definition find_next :: "alloc_state \<Rightarrow> addr \<Rightarrow> addr option" where
  "find_next s block =
     (let block_end = block + size_fb (heap s block) + sizeof_free_block
      in find_next_loop (heap s) block_end (HEAD s))"

partial_function (option) remove_free_block_loop :: "(addr \<Rightarrow> free_block) \<Rightarrow> addr \<Rightarrow> addr \<Rightarrow> (addr \<Rightarrow> free_block) option" where
  "remove_free_block_loop h block cur =
     (if cur \<noteq> NULL then
        (if next_fb (h cur) = block then Some (set_next h cur (next_fb (h block)))
         else remove_free_block_loop h block (next_fb (h cur)))
      else Some h)"

definition remove_free_block :: "alloc_state \<Rightarrow> addr \<Rightarrow> alloc_state option" where
  "remove_free_block s block =
     (if HEAD s = block then Some (s\<lparr>HEAD := next_fb (heap s block)\<rparr>)
      else do {
        h \<leftarrow> remove_free_block_loop (heap s) block (HEAD s);
        Some (s\<lparr>heap := h\<rparr>)
      })"

text \<open>
  The free list as a list of addresses: \<open>chain h a xs\<close> says that following \<open>next\<close>
  from \<open>a\<close> visits exactly the blocks \<open>xs\<close> and then reaches \<open>NULL\<close>.
\<close>

fun chain :: "(addr \<Rightarrow> free_block) \<Rightarrow> addr \<Rightarrow> addr list \<Rightarrow> bool" where
  "chain h a [] = (a = NULL)"
| "chain h a (x # xs) = (a \<noteq> NULL \<and> x = a \<and> chain h (next_fb (h a)) xs)"

section \<open>The Coalescer\<close>

text \<open>The two halves of \<open>coalesce\<close>, each one \<open>if\<close> statement of the source.\<close>

definition coalesce_prev :: "(addr \<Rightarrow> free_block) \<Rightarrow> addr \<Rightarrow> addr \<Rightarrow> (addr \<Rightarrow> free_block) \<times> addr" where
  "coalesce_prev h block prev =
     (if prev \<noteq> NULL then
        (let end_of_prev = prev + size_fb (h prev) + sizeof_free_block in
         if end_of_prev = block then
           (let h1 = set_size h prev (size_fb (h prev) + (size_fb (h block) + sizeof_free_block));
                h2 = (if next_fb (h1 prev) = block
                      then set_next h1 prev (next_fb (h1 block)) else h1)
            in (h2, prev))
         else (h, block))
      else (h, block))"

definition coalesce_next :: "(addr \<Rightarrow> free_block) \<Rightarrow> addr \<Rightarrow> addr \<Rightarrow> addr \<Rightarrow> free_block" where
  "coalesce_next h block nxt =
     (if nxt \<noteq> NULL then
        (let end_of_block = block + size_fb (h block) + sizeof_free_block in
         if end_of_block = nxt then
           (let h1 = set_size h block (size_fb (h block) + (size_fb (h nxt) + sizeof_free_block))
            in set_next h1 block (next_fb (h1 nxt)))
         else h)
      else h)"

definition coalesce :: "alloc_state \<Rightarrow> addr \<Rightarrow> (alloc_state \<times> addr) option" where
  "coalesce s block =
     (if block = NULL then Some (s, NULL)
      else do {
        prev \<leftarrow> find_prev s block;
        nxt \<leftarrow> find_next s block;
        let (h1, block1) = coalesce_prev (heap s) block prev;
        let h2 = coalesce_next h1 block1 nxt;
        Some (s\<lparr>heap := h2\<rparr>, block1)
      })"

section \<open>The Arena Extender\<close>

definition do_alloc :: "alloc_state \<Rightarrow> size_t \<Rightarrow> (alloc_state \<times> addr) option" where
  "do_alloc s sz =
     (let (s1, block) = sbrk s (sz + sizeof_free_block) in
      if block = - 1 then Some (s1, NULL)
      else
        let new_block = block;
            h1 = set_size (heap s1) new_block sz;
            h2 = set_next h1 new_block (HEAD s1);
            s2 = s1\<lparr>heap := h2, HEAD := new_block\<rparr>
        in do {
          (s3, r) \<leftarrow> coalesce s2 (HEAD s2);
          Some (s3\<lparr>HEAD := r\<rparr>, new_block + sizeof_free_block)
        })"

section \<open>The Allocator Front End\<close>

text \<open>
  \<open>tumalloc\<close>. The calls of \<open>printf\<close> are debug output and are left out.
  \<open>tumalloc_hit\<close> is the body of \<open>if (curr->size >= size)\<close> inside the loop,
  \<open>tumalloc_grow\<close> the code after the loop. \<open>split\<close> takes an \<open>int\<close>, so the
  \<open>size_t\<close> argument is truncated to 32 bits at the call.
\<close>

definition tumalloc_hit :: "alloc_state \<Rightarrow> size_t \<Rightarrow> addr \<Rightarrow> addr \<Rightarrow> alloc_state \<times> addr" where
  "tumalloc_hit s sz prev cur =
     (let s1 = (if size_fb (heap s cur) > sz + sizeof_free_block
                then fst (split s cur (ucast sz)) else s);
          s2 = (if prev \<noteq> NULL
                then s1\<lparr>heap := set_next (heap s1) prev (next_fb (heap s1 cur))\<rparr>
                else s1\<lparr>HEAD := next_fb (heap s1 cur)\<rparr>);
          s3 = s2\<lparr>next_fit_ptr :=
                 (if next_fb (heap s2 cur) \<noteq> NULL then next_fb (heap s2 cur) else HEAD s2)\<rparr>
      in (s3, cur + sizeof_free_block))"

definition tumalloc_grow :: "alloc_state \<Rightarrow> size_t \<Rightarrow> alloc_state \<times> addr" where
  "tumalloc_grow s sz =
     (let (s1, new_block) = sbrk s (sz + sizeof_free_block) in
      if new_block = - 1 then (s1, NULL)
      else
        let h1 = set_size (heap s1) new_block sz;
            h2 = set_next h1 new_block (HEAD s1)
        in (s1\<lparr>heap := h2, next_fit_ptr := NULL\<rparr>, new_block + sizeof_free_block))"

partial_function (option) tumalloc_loop :: "alloc_state \<Rightarrow> size_t \<Rightarrow> addr \<Rightarrow> addr \<Rightarrow> (alloc_state \<times> addr) option" where
  "tumalloc_loop s sz prev cur =
     (if cur \<noteq> NULL then
        (if size_fb (heap s cur) \<ge> sz then Some (tumalloc_hit s sz prev cur)
         else tumalloc_loop s sz cur (next_fb (heap s cur)))
      else Some (tumalloc_grow s sz))"

definition align_up :: "size_t \<Rightarrow> size_t" where
  "align_up sz = (sz + ALIGNMENT - 1) AND NOT (ALIGNMENT - 1)"

definition tumalloc :: "alloc_state \<Rightarrow> size_t \<Rightarrow> (alloc_state \<times> addr) option" where
  "tumalloc s sz0 =
     (let sz = align_up sz0;
          cur = (if next_fit_ptr s \<noteq> NULL then next_fit_ptr s else HEAD s)
      in tumalloc_loop s sz NULL cur)"

text \<open>\<open>tufree\<close> has an empty body in the source.\<close>

definition tufree :: "alloc_state \<Rightarrow> addr \<Rightarrow> alloc_state" where
  "tufree s ptr = s"

text \<open>
  The division \<open>SIZE_MAX / size\<close> in the guard of \<open>tucalloc\<close>. C defines the
  unsigned quotient \<open>a / b\<close> only for a divisor other than 0; what a program does that
  divides by 0 is left to the platform and the compiler. So the division is a parameter
  \<open>udiv\<close> of the model: it returns the quotient, or \<open>None\<close> where the division
  traps, and \<open>c_division udiv\<close> says that it is C's division wherever C defines one.
  Three such divisions: one that traps on a zero divisor, one that yields 0 there and
  one that yields all ones there.
\<close>

definition c_division :: "(size_t \<Rightarrow> size_t \<Rightarrow> size_t option) \<Rightarrow> bool" where
  "c_division udiv = (\<forall>a b. b \<noteq> 0 \<longrightarrow> udiv a b = Some (a div b))"

definition udiv_trap :: "size_t \<Rightarrow> size_t \<Rightarrow> size_t option" where
  "udiv_trap a b = (if b = 0 then None else Some (a div b))"

definition udiv_zero :: "size_t \<Rightarrow> size_t \<Rightarrow> size_t option" where
  "udiv_zero a b = (if b = 0 then Some 0 else Some (a div b))"

definition udiv_ones :: "size_t \<Rightarrow> size_t \<Rightarrow> size_t option" where
  "udiv_ones a b = (if b = 0 then Some (- 1) else Some (a div b))"

text \<open>
  \<open>memset(ptr, v, n)\<close> as \<open>tucalloc\<close> calls it, on memory that \<open>tumalloc\<close> has just
  returned. The arena ends at the program break: a write of \<open>n\<close> bytes from \<open>ptr\<close>
  that does not end at or below the break leaves the memory of the process, and the
  result is the fault \<open>OutOfBounds\<close>.
\<close>

datatype fault = DivisionTrap | OutOfBounds

definition memset_arena :: "alloc_state \<Rightarrow> addr \<Rightarrow> 8 word \<Rightarrow> size_t \<Rightarrow> fault + alloc_state" where
  "memset_arena s ptr v n =
     (if unat ptr + unat n \<le> unat (brk s)
      then Inr (s\<lparr>bytes := memset (bytes s) ptr v n\<rparr>)
      else Inl OutOfBounds)"

text \<open>
  \<open>tucalloc\<close>: the guard, then \<open>tucalloc_fill\<close>, the rest of the body from the
  computation of \<open>total_size\<close> on (the call of \<open>tumalloc\<close> and the \<open>memset\<close> of
  the payload). The source does not test \<open>size\<close> anywhere.
\<close>

definition tucalloc_fill :: "alloc_state \<Rightarrow> size_t \<Rightarrow> (fault + alloc_state \<times> addr) option" where
  "tucalloc_fill s total_size =
     do {
       (s1, ptr) \<leftarrow> tumalloc s total_size;
       if ptr \<noteq> NULL then
         (case memset_arena s1 ptr 0 total_size of
            Inl f \<Rightarrow> Some (Inl f)
          | Inr s2 \<Rightarrow> Some (Inr (s2, ptr)))
       else Some (Inr (s1, ptr))
     }"

definition tucalloc :: "(size_t \<Rightarrow> size_t \<Rightarrow> size_t option) \<Rightarrow> alloc_state \<Rightarrow> size_t \<Rightarrow> size_t \<Rightarrow> (fault + alloc_state \<times> addr) option" where
  "tucalloc udiv s num sz =
     (case udiv SIZE_MAX sz of
        None \<Rightarrow> Some (Inl DivisionTrap)
      | Some q \<Rightarrow>
          if num > q then Some (Inr (s, NULL))
          else
            let total_size = num * sz in
            tucalloc_fill s total_size)"

definition turealloc :: "alloc_state \<Rightarrow> addr \<Rightarrow> size_t \<Rightarrow> (alloc_state \<times> addr) option" where
  "turealloc s ptr new_size =
     (if ptr = NULL then tumalloc s new_size
      else
        let block = ptr - sizeof_free_block in
        if size_fb (heap s block) \<ge> new_size then Some (s, ptr)
        else do {
          (s1, new_ptr) \<leftarrow> tumalloc s new_size;
          Some (if new_ptr \<noteq> NULL
                then (tufree (s1\<lparr>bytes := memcpy (bytes s1) new_ptr ptr (size_fb (heap s1 block))\<rparr>) ptr,
                      new_ptr)
                else (s1, new_ptr))
        })"

section \<open>The free list as a list, request sequences, concrete states\<close>

text \<open>
  The first block of a list of blocks whose size is at least \<open>sz\<close>, together with the
  block scanned just before it (\<open>prev\<close> for the first one): what the loop of
  \<open>tumalloc\<close> finds on a chain.
\<close>

fun first_fit :: "(addr \<Rightarrow> free_block) \<Rightarrow> size_t \<Rightarrow> addr \<Rightarrow> addr list \<Rightarrow> (addr \<times> addr) option" where
  "first_fit h sz prev [] = None"
| "first_fit h sz prev (x # xs) =
     (if sz \<le> size_fb (h x) then Some (prev, x) else first_fit h sz x xs)"

text \<open>Block \<open>a\<close> ends exactly where block \<open>b\<close> begins.\<close>

definition adjacent :: "(addr \<Rightarrow> free_block) \<Rightarrow> addr \<Rightarrow> addr \<Rightarrow> bool" where
  "adjacent h a b = (a + size_fb (h a) + sizeof_free_block = b)"

text \<open>Sequences of allocate and release calls of a client.\<close>

datatype request = Allocate size_t | Release addr

fun run :: "alloc_state \<Rightarrow> request list \<Rightarrow> alloc_state option" where
  "run s [] = Some s"
| "run s (Allocate n # rs) = do { (s', p) \<leftarrow> tumalloc s n; run s' rs }"
| "run s (Release p # rs) = run (tufree s p) rs"

text \<open>
  The allocator at program start (both globals are \<open>NULL\<close>), with the break at
  \<open>0x1000\<close>, and the states that the calls named below reach from it.
\<close>

definition empty_allocator :: alloc_state where
  "empty_allocator = \<lparr>HEAD = NULL, next_fit_ptr = NULL,
     heap = (\<lambda>_. \<lparr>size_fb = 0, next_fb = NULL\<rparr>), bytes = (\<lambda>_. 0),
     brk = 0x1000, brk_max = 0x100000\<rparr>"

text \<open>After \<open>tumalloc(32)\<close>: one used block at \<open>0x1000\<close>, payload at \<open>0x1010\<close>.\<close>

definition one_used_32 :: alloc_state where
  "one_used_32 = \<lparr>HEAD = NULL, next_fit_ptr = NULL,
     heap = (\<lambda>_. \<lparr>size_fb = 0, next_fb = NULL\<rparr>)
       (0x1000 := \<lparr>size_fb = 32, next_fb = NULL\<rparr>),
     bytes = (\<lambda>_. 0), brk = 0x1030, brk_max = 0x100000\<rparr>"

text \<open>
  After \<open>tumalloc(0)\<close>, and after \<open>tumalloc(SIZE_MAX)\<close>, whose aligned size is 0
  as well: one used block without payload at \<open>0x1000\<close>; the pointer \<open>0x1010\<close> is
  the break.
\<close>

definition zero_byte_block :: alloc_state where
  "zero_byte_block = \<lparr>HEAD = NULL, next_fit_ptr = NULL,
     heap = (\<lambda>_. \<lparr>size_fb = 0, next_fb = NULL\<rparr>)
       (0x1000 := \<lparr>size_fb = 0, next_fb = NULL\<rparr>),
     bytes = (\<lambda>_. 0), brk = 0x1010, brk_max = 0x100000\<rparr>"

text \<open>
  After \<open>tumalloc(16)\<close>, \<open>tumalloc(32)\<close>, \<open>tufree(0x1010)\<close>, \<open>tufree(0x1030)\<close>:
  the blocks at \<open>0x1000\<close> and \<open>0x1020\<close>.
\<close>

definition two_released :: alloc_state where
  "two_released = \<lparr>HEAD = NULL, next_fit_ptr = NULL,
     heap = (\<lambda>_. \<lparr>size_fb = 0, next_fb = NULL\<rparr>)
       (0x1000 := \<lparr>size_fb = 16, next_fb = NULL\<rparr>,
        0x1020 := \<lparr>size_fb = 32, next_fb = NULL\<rparr>),
     bytes = (\<lambda>_. 0), brk = 0x1050, brk_max = 0x100000\<rparr>"

text \<open>After \<open>do_alloc(64)\<close>: one free block of 64 bytes at \<open>0x1000\<close>.\<close>

definition one_free_64 :: alloc_state where
  "one_free_64 = \<lparr>HEAD = 0x1000, next_fit_ptr = NULL,
     heap = (\<lambda>_. \<lparr>size_fb = 0, next_fb = NULL\<rparr>)
       (0x1000 := \<lparr>size_fb = 64, next_fb = NULL\<rparr>),
     bytes = (\<lambda>_. 0), brk = 0x1050, brk_max = 0x100000\<rparr>"

text \<open>After \<open>do_alloc(64)\<close> and \<open>tumalloc(16)\<close>, which splits the block.\<close>

definition after_split :: alloc_state where
  "after_split = \<lparr>HEAD = NULL, next_fit_ptr = NULL,
     heap = (\<lambda>_. \<lparr>size_fb = 0, next_fb = NULL\<rparr>)
       (0x1020 := \<lparr>size_fb = 32, next_fb = NULL\<rparr>,
        0x1000 := \<lparr>size_fb = 16, next_fb = NULL\<rparr>),
     bytes = (\<lambda>_. 0), brk = 0x1050, brk_max = 0x100000\<rparr>"

text \<open>After \<open>do_alloc(16)\<close>: one free block of 16 bytes at \<open>0x1000\<close>.\<close>

definition one_free_16 :: alloc_state where
  "one_free_16 = \<lparr>HEAD = 0x1000, next_fit_ptr = NULL,
     heap = (\<lambda>_. \<lparr>size_fb = 0, next_fb = NULL\<rparr>)
       (0x1000 := \<lparr>size_fb = 16, next_fb = NULL\<rparr>),
     bytes = (\<lambda>_. 0), brk = 0x1020, brk_max = 0x100000\<rparr>"

text \<open>After \<open>do_alloc(16)\<close> and \<open>tumalloc(32)\<close>, which misses and grows the arena.\<close>

definition grown_after_miss :: alloc_state where
  "grown_after_miss = \<lparr>HEAD = 0x1000, next_fit_ptr = NULL,
     heap = (\<lambda>_. \<lparr>size_fb = 0, next_fb = NULL\<rparr>)
       (0x1000 := \<lparr>size_fb = 16, next_fb = NULL\<rparr>,
        0x1020 := \<lparr>size_fb = 32, next_fb = 0x1000\<rparr>),
     bytes = (\<lambda>_. 0), brk = 0x1050, brk_max = 0x100000\<rparr>"

text \<open>
  Inside \<open>do_alloc(64)\<close> called after \<open>do_alloc(16)\<close>, at the call of \<open>coalesce\<close>:
  the new block at \<open>0x1020\<close> is the list head and the block at \<open>0x1000\<close> ends where
  it begins. \<open>merged_pred\<close> is the state when \<open>coalesce\<close> returns.
\<close>

definition linked_new_block :: alloc_state where
  "linked_new_block = \<lparr>HEAD = 0x1020, next_fit_ptr = NULL,
     heap = (\<lambda>_. \<lparr>size_fb = 0, next_fb = NULL\<rparr>)
       (0x1000 := \<lparr>size_fb = 16, next_fb = NULL\<rparr>,
        0x1020 := \<lparr>size_fb = 64, next_fb = 0x1000\<rparr>),
     bytes = (\<lambda>_. 0), brk = 0x1070, brk_max = 0x100000\<rparr>"


text \<open>
  After \<open>do_alloc(16)\<close>, \<open>tumalloc(48)\<close>, \<open>do_alloc(64)\<close>, \<open>tumalloc(128)\<close>,
  \<open>do_alloc(32)\<close>: three free blocks that are not neighbours, the list is
  \<open>0x1140\<close> (32 bytes), \<open>0x1060\<close> (64 bytes), \<open>0x1000\<close> (16 bytes).
\<close>

definition three_free :: alloc_state where
  "three_free = \<lparr>HEAD = 0x1140, next_fit_ptr = NULL,
     heap = (\<lambda>_. \<lparr>size_fb = 0, next_fb = NULL\<rparr>)
       (0x1000 := \<lparr>size_fb = 16, next_fb = NULL\<rparr>,
        0x1020 := \<lparr>size_fb = 48, next_fb = 0x1000\<rparr>,
        0x1060 := \<lparr>size_fb = 64, next_fb = 0x1000\<rparr>,
        0x10B0 := \<lparr>size_fb = 128, next_fb = 0x1060\<rparr>,
        0x1140 := \<lparr>size_fb = 32, next_fb = 0x1060\<rparr>),
     bytes = (\<lambda>_. 0), brk = 0x1170, brk_max = 0x100000\<rparr>"

text \<open>Then \<open>tumalloc(64)\<close> takes the middle block and leaves the cursor on the last one.\<close>

definition cursor_at_tail :: alloc_state where
  "cursor_at_tail = \<lparr>HEAD = 0x1140, next_fit_ptr = 0x1000,
     heap = (\<lambda>_. \<lparr>size_fb = 0, next_fb = NULL\<rparr>)
       (0x1000 := \<lparr>size_fb = 16, next_fb = NULL\<rparr>,
        0x1020 := \<lparr>size_fb = 48, next_fb = 0x1000\<rparr>,
        0x1060 := \<lparr>size_fb = 64, next_fb = 0x1000\<rparr>,
        0x10B0 := \<lparr>size_fb = 128, next_fb = 0x1060\<rparr>,
        0x1140 := \<lparr>size_fb = 32, next_fb = 0x1000\<rparr>),
     bytes = (\<lambda>_. 0), brk = 0x1170, brk_max = 0x100000\<rparr>"

text \<open>Then \<open>tumalloc(32)\<close> grows the arena.\<close>

definition grown_past_fit :: alloc_state where
  "grown_past_fit = \<lparr>HEAD = 0x1140, next_fit_ptr = NULL,
     heap = (\<lambda>_. \<lparr>size_fb = 0, next_fb = NULL\<rparr>)
       (0x1000 := \<lparr>size_fb = 16, next_fb = NULL\<rparr>,
        0x1020 := \<lparr>size_fb = 48, next_fb = 0x1000\<rparr>,
        0x1060 := \<lparr>size_fb = 64, next_fb = 0x1000\<rparr>,
        0x10B0 := \<lparr>size_fb = 128, next_fb = 0x1060\<rparr>,
        0x1140 := \<lparr>size_fb = 32, next_fb = 0x1000\<rparr>,
        0x1170 := \<lparr>size_fb = 32, next_fb = 0x1140\<rparr>),
     bytes = (\<lambda>_. 0), brk = 0x11A0, brk_max = 0x100000\<rparr>"

section \<open>Evaluation on the concrete states\<close>

lemmas eval_defs = tumalloc_def align_up_def ALIGNMENT_def tumalloc_loop.simps tumalloc_grow_def
  tumalloc_hit_def sbrk_def sizeof_free_block_def set_size_def set_next_def do_alloc_def
  coalesce_def find_prev_def find_next_def find_prev_loop.simps find_next_loop.simps
  coalesce_prev_def coalesce_next_def Spec2Isabelle.split_def Let_def

lemma reach_one_used_32: "tumalloc empty_allocator 32 = Some (one_used_32, 0x1010)"
  by (simp add: eval_defs empty_allocator_def one_used_32_def)

lemma reach_one_free_64: "do_alloc empty_allocator 64 = Some (one_free_64, 0x1010)"
  by (simp add: eval_defs empty_allocator_def one_free_64_def)

lemma reach_one_free_16: "do_alloc empty_allocator 16 = Some (one_free_16, 0x1010)"
  by (simp add: eval_defs empty_allocator_def one_free_16_def)

lemma reach_linked_new_block:
  "do_alloc one_free_16 64 =
     do { (s3, r) \<leftarrow> coalesce linked_new_block (HEAD linked_new_block);
          Some (s3\<lparr>HEAD := r\<rparr>, 0x1030) }"
  by (simp add: do_alloc_def sbrk_def sizeof_free_block_def set_size_def set_next_def
      one_free_16_def linked_new_block_def)

lemma reach_three_free:
  "do { (s1, p1) \<leftarrow> do_alloc empty_allocator 16;
        (s2, p2) \<leftarrow> tumalloc s1 48;
        (s3, p3) \<leftarrow> do_alloc s2 64;
        (s4, p4) \<leftarrow> tumalloc s3 128;
        (s5, p5) \<leftarrow> do_alloc s4 32;
        Some s5 } = Some three_free"
  by (simp add: eval_defs empty_allocator_def three_free_def)

lemma reach_cursor_at_tail: "tumalloc three_free 64 = Some (cursor_at_tail, 0x1070)"
  by (simp add: eval_defs three_free_def cursor_at_tail_def)

section \<open>The Block Splitter: when it fails and what it builds\<close>

lemma unat_scast_nonneg:
  assumes "0 \<le> sint (R :: c_int)"
  shows "unat (scast R :: size_t) = nat (sint R)"
proof -
  have "sint R < 2 ^ 31"
    using sint_lt [of R] by simp
  then have lt: "sint R < 2 ^ 64"
    by simp
  have "uint (scast R :: size_t) = sint R mod 2 ^ 64"
    unfolding scast_eq uint_word_of_int by simp
  also have "\<dots> = sint R"
    using assms lt by simp
  finally show ?thesis
    by (simp add: unat_eq_nat_uint)
qed

lemma nat_sint_bound: "nat (sint (R :: c_int)) < 2 ^ 31"
  using sint_lt [of R] by simp

lemma unat_scast_plus_header:
  assumes "0 \<le> sint (R :: c_int)"
  shows "unat (scast R + sizeof_free_block :: size_t) = nat (sint R) + 16"
proof -
  have "unat (scast R :: size_t) + unat (16 :: size_t) < 2 ^ 64"
    using nat_sint_bound [of R] by (simp add: unat_scast_nonneg [OF assms])
  then have "unat (scast R + 16 :: size_t) = unat (scast R :: size_t) + unat (16 :: size_t)"
    by (simp add: unat_add_lem [THEN iffD1])
  then show ?thesis
    by (simp add: sizeof_free_block_def unat_scast_nonneg [OF assms])
qed

lemma scast_plus_header_neq:
  assumes "0 \<le> sint (R :: c_int)"
  shows "B + scast R + sizeof_free_block \<noteq> (B :: addr)"
proof
  assume "B + scast R + sizeof_free_block = B"
  then have "scast R + sizeof_free_block = (0 :: size_t)"
    by (simp add: add.assoc)
  then have "unat (scast R + sizeof_free_block :: size_t) = 0"
    by simp
  then show False
    by (simp add: unat_scast_plus_header [OF assms])
qed

text \<open>
  Claim C3: for a block \<open>B\<close> and a requested payload size \<open>R\<close> (an \<open>int\<close> that is
  not negative), \<open>split\<close> fails, returning \<open>NULL\<close> and changing nothing, exactly when
  \<open>B.size < R + sizeof(free_block)\<close>. Otherwise it returns \<open>B\<close>; the new block
  \<open>R + sizeof(free_block)\<close> bytes past \<open>B\<close> has the size
  \<open>B.size - R - sizeof(free_block)\<close> and \<open>B\<close>'s \<open>next\<close>; \<open>B\<close>'s size is \<open>R\<close>; no
  other header and no other part of the state changes.
\<close>

theorem split_spec:
  assumes "B \<noteq> NULL" and "0 \<le> sint R"
  shows "let nb = B + scast R + sizeof_free_block;
             s' = fst (split s B R)
         in if unat (size_fb (heap s B)) < nat (sint R) + unat sizeof_free_block
            then split s B R = (s, NULL)
            else snd (split s B R) = B \<and> snd (split s B R) \<noteq> NULL
               \<and> unat (size_fb (heap s' nb)) =
                   unat (size_fb (heap s B)) - nat (sint R) - unat sizeof_free_block
               \<and> next_fb (heap s' nb) = next_fb (heap s B)
               \<and> unat (size_fb (heap s' B)) = nat (sint R)
               \<and> next_fb (heap s' B) = next_fb (heap s B)
               \<and> (\<forall>a. a \<noteq> B \<and> a \<noteq> nb \<longrightarrow> heap s' a = heap s a)
               \<and> s' = s\<lparr>heap := heap s'\<rparr>"
proof -
  let ?nb = "B + scast R + sizeof_free_block"
  have cond: "size_fb (heap s B) < scast R + sizeof_free_block
      \<longleftrightarrow> unat (size_fb (heap s B)) < nat (sint R) + unat sizeof_free_block"
    by (simp only: word_less_nat_alt unat_scast_plus_header [OF assms(2)])
      (simp add: sizeof_free_block_def)
  have neq: "?nb \<noteq> B"
    by (rule scast_plus_header_neq [OF assms(2)])
  show ?thesis
  proof (cases "size_fb (heap s B) < scast R + sizeof_free_block")
    case True
    then show ?thesis
      using cond by (simp add: Spec2Isabelle.split_def Let_def)
  next
    case False
    then have le: "scast R + sizeof_free_block \<le> size_fb (heap s B)"
      by simp
    have "size_fb (heap s B) - scast R - sizeof_free_block
        = size_fb (heap s B) - (scast R + sizeof_free_block)"
      by simp
    then have sub: "unat (size_fb (heap s B) - scast R - sizeof_free_block)
        = unat (size_fb (heap s B)) - nat (sint R) - unat sizeof_free_block"
      using le by (simp only: unat_sub unat_scast_plus_header [OF assms(2)])
        (simp add: sizeof_free_block_def)
    show ?thesis
      using False cond neq neq [symmetric] assms(1) sub
      by (simp add: Spec2Isabelle.split_def Let_def set_size_def set_next_def
          unat_scast_nonneg [OF assms(2)])
  qed
qed

theorem split_spec_witness:
  "(0x1000 :: addr) \<noteq> NULL \<and> 0 \<le> sint (16 :: c_int)
   \<and> \<not> unat (size_fb (heap one_free_64 0x1000)) < nat (sint (16 :: c_int)) + unat sizeof_free_block
   \<and> snd (split one_free_64 0x1000 16) = 0x1000
   \<and> unat (size_fb (heap (fst (split one_free_64 0x1000 16)) 0x1020)) = 32
   \<and> unat (size_fb (heap (fst (split one_free_64 0x1000 16)) 0x1000)) = 16"
proof -
  have a: "(0x1000 :: addr) \<noteq> NULL" by simp
  have b: "0 \<le> sint (16 :: c_int)" by simp
  show ?thesis
    using split_spec [OF a b, of one_free_64]
    by (simp add: Let_def one_free_64_def sizeof_free_block_def)
qed

section \<open>Resize\<close>

text \<open>
  Claim C6: for a non-NULL pointer whose header, one header width below it, records a
  size of at least \<open>new_size\<close>, \<open>turealloc\<close> returns the same pointer and leaves the
  whole state as it was; with a NULL pointer it is \<open>tumalloc new_size\<close>.
\<close>

theorem turealloc_in_place_or_malloc:
  "(ptr \<noteq> NULL \<and> new_size \<le> size_fb (heap s (ptr - sizeof_free_block))
      \<longrightarrow> turealloc s ptr new_size = Some (s, ptr))
   \<and> turealloc s NULL new_size = tumalloc s new_size"
  by (simp add: turealloc_def)

theorem turealloc_in_place_or_malloc_witness:
  "(0x1010 :: addr) \<noteq> NULL
   \<and> (20 :: size_t) \<le> size_fb (heap one_used_32 (0x1010 - sizeof_free_block))
   \<and> turealloc one_used_32 0x1010 20 = Some (one_used_32, 0x1010)
   \<and> turealloc one_used_32 NULL 20 = tumalloc one_used_32 20"
  using turealloc_in_place_or_malloc [of "0x1010" 20 one_used_32]
  by (simp add: one_used_32_def sizeof_free_block_def)

section \<open>Zero-allocate\<close>

text \<open>
  For a size other than 0 the guard of \<open>tucalloc\<close> is the overflow test of
  \<open>num * size\<close>, and the payload bytes of a call that returns memory are zero.
\<close>

lemma tucalloc_guard_is_overflow:
  assumes "sz \<noteq> 0"
  shows "(num > SIZE_MAX div sz) = (2 ^ 64 \<le> unat num * unat sz)"
proof -
  have pos: "0 < unat sz"
    using assms by (simp add: unat_gt_0)
  have "unat (SIZE_MAX div sz) = (2 ^ 64 - 1) div unat sz"
    by (simp add: SIZE_MAX_def unat_div unsigned_minus_1_eq_mask mask_eq_exp_minus_1)
  then have "(num > SIZE_MAX div sz) = ((2 ^ 64 - 1) div unat sz < unat num)"
    by (simp add: word_less_nat_alt)
  also have "\<dots> = (2 ^ 64 - 1 < unat num * unat sz)"
    using pos by (simp add: div_less_iff_less_mult)
  also have "\<dots> = (2 ^ 64 \<le> unat num * unat sz)"
    by auto
  finally show ?thesis .
qed

lemma tucalloc_fill_zero:
  assumes "tucalloc_fill s n = Some (Inr (s', p))" and "p \<noteq> NULL" and "a - p < n"
  shows "bytes s' a = 0"
  using assms
  by (auto simp: tucalloc_fill_def memset_arena_def memset_def
      split: if_splits bind_splits prod.splits)

lemma c_division_platforms: "c_division udiv_trap" "c_division udiv_zero" "c_division udiv_ones"
  by (simp_all add: c_division_def udiv_trap_def udiv_zero_def udiv_ones_def)

text \<open>
  Claim C10 says that for every count \<open>tucalloc(count, 0)\<close> runs into the division by
  zero instead of delegating to \<open>tumalloc\<close>. Where the quotient of the division by 0
  comes out as all ones, the guard \<open>num > SIZE_MAX / size\<close> is false and
  \<open>tucalloc(3, 0)\<close> delegates: \<open>tumalloc(0)\<close> returns \<open>0x1010\<close>, and so does
  \<open>tucalloc\<close>.
\<close>

theorem tucalloc_zero_size_delegates:
  "c_division udiv_ones
   \<and> tumalloc empty_allocator 0 = Some (zero_byte_block, 0x1010)
   \<and> tucalloc udiv_ones empty_allocator 3 0 = Some (Inr (zero_byte_block, 0x1010))"
  by (simp add: c_division_platforms tucalloc_def tucalloc_fill_def memset_arena_def
      memset_def udiv_ones_def SIZE_MAX_def eval_defs empty_allocator_def zero_byte_block_def)

text \<open>
  Claim C10 as amended: the guard of \<open>tucalloc\<close> divides \<open>SIZE_MAX\<close> by \<open>size\<close>
  and nothing tests \<open>size\<close> before. For a size other than 0 the guard is defined by C
  and is the overflow test: the call returns \<open>NULL\<close> and changes nothing when
  \<open>num * size\<close> does not fit into 64 bits, and otherwise goes on to \<open>tumalloc\<close>.
  For the size 0 the call does what the platform makes of \<open>SIZE_MAX / 0\<close>: it ends
  in the trap where the division traps; where the division yields a quotient \<open>q\<close>, the
  call returns \<open>NULL\<close> for a count above \<open>q\<close> and goes on to \<open>tumalloc\<close> with the
  total size 0 otherwise.
\<close>

theorem tucalloc_guard_division:
  assumes "c_division udiv"
  shows "tucalloc udiv s num sz =
     (if sz \<noteq> 0 then
        (if 2 ^ 64 \<le> unat num * unat sz then Some (Inr (s, NULL))
         else tucalloc_fill s (num * sz))
      else
        (case udiv SIZE_MAX 0 of
           None \<Rightarrow> Some (Inl DivisionTrap)
         | Some q \<Rightarrow> if q < num then Some (Inr (s, NULL)) else tucalloc_fill s 0))"
proof (cases "sz = 0")
  case True
  then show ?thesis
    by (simp add: tucalloc_def split: option.splits)
next
  case False
  then have "udiv SIZE_MAX sz = Some (SIZE_MAX div sz)"
    using assms by (simp add: c_division_def)
  then show ?thesis
    using False tucalloc_guard_is_overflow [OF False, of num]
    by (simp add: tucalloc_def)
qed

theorem tucalloc_guard_division_witness:
  "c_division udiv_trap
   \<and> tucalloc udiv_trap empty_allocator 8 2 = tucalloc_fill empty_allocator 16
   \<and> tucalloc udiv_trap empty_allocator (2 ^ 63) 2 = Some (Inr (empty_allocator, NULL))
   \<and> tucalloc udiv_trap empty_allocator 3 0 = Some (Inl DivisionTrap)"
  using tucalloc_guard_division [OF c_division_platforms(1), of empty_allocator 8 2]
    tucalloc_guard_division [OF c_division_platforms(1), of empty_allocator "2 ^ 63" 2]
    tucalloc_guard_division [OF c_division_platforms(1), of empty_allocator 3 0]
  by (simp add: c_division_platforms udiv_trap_def)

text \<open>
  Claim C5 says that \<open>tucalloc\<close> fails exactly when \<open>count * size\<close> overflows and
  that otherwise the call returns memory of \<open>count * size\<close> zero bytes. The product
  \<open>SIZE_MAX * 1\<close> does not overflow, and \<open>tucalloc(SIZE_MAX, 1)\<close> delegates; but
  rounding \<open>SIZE_MAX\<close> up to the alignment wraps around to 0, so \<open>tumalloc\<close>
  returns the pointer \<open>0x1010\<close> to a block without payload, which ends at the break,
  and the \<open>memset\<close> of \<open>SIZE_MAX\<close> bytes runs out of the arena. The division of
  the guard has the divisor 1 here, so the three divisions agree.
\<close>

theorem tucalloc_alignment_wraps:
  "unat (- 1 :: size_t) * unat (1 :: size_t) < 2 ^ 64
   \<and> align_up (- 1) = 0
   \<and> tumalloc empty_allocator (- 1) = Some (zero_byte_block, 0x1010)
   \<and> tucalloc udiv_trap empty_allocator (- 1) 1 = Some (Inl OutOfBounds)
   \<and> tucalloc udiv_zero empty_allocator (- 1) 1 = Some (Inl OutOfBounds)
   \<and> tucalloc udiv_ones empty_allocator (- 1) 1 = Some (Inl OutOfBounds)"
  by (simp add: tucalloc_def tucalloc_fill_def memset_arena_def udiv_trap_def udiv_zero_def
      udiv_ones_def SIZE_MAX_def eval_defs empty_allocator_def zero_byte_block_def
      unsigned_minus_1_eq_mask mask_eq_exp_minus_1)

section \<open>Release\<close>

text \<open>
  Claim C1 says that \<open>tufree\<close> puts the block of a pointer returned by \<open>tumalloc\<close>
  back into the free list. The body of \<open>tufree\<close> is empty: after \<open>tumalloc(32)\<close> on
  the empty allocator returned \<open>0x1010\<close>, releasing that pointer leaves the state as it
  is, and the free list is empty. (Releasing \<open>NULL\<close> changes nothing either.)
\<close>

theorem tufree_leaves_free_list_empty:
  "tumalloc empty_allocator 32 = Some (one_used_32, 0x1010)
   \<and> tufree one_used_32 NULL = one_used_32
   \<and> tufree one_used_32 0x1010 = one_used_32
   \<and> HEAD (tufree one_used_32 0x1010) = NULL
   \<and> chain (heap (tufree one_used_32 0x1010)) (HEAD (tufree one_used_32 0x1010)) []"
  by (simp add: eval_defs empty_allocator_def one_used_32_def tufree_def)

section \<open>Allocation from the free list\<close>

text \<open>On a chain, the loop of \<open>tumalloc\<close> returns, with the first fitting block.\<close>

lemma tumalloc_loop_chain:
  "chain (heap s) cur xs \<Longrightarrow>
   tumalloc_loop s sz prev cur =
     Some (case first_fit (heap s) sz prev xs of
             Some (p, c) \<Rightarrow> tumalloc_hit s sz p c
           | None \<Rightarrow> tumalloc_grow s sz)"
proof (induction xs arbitrary: prev cur)
  case Nil
  then show ?case by (subst tumalloc_loop.simps) simp
next
  case (Cons x xs)
  then show ?case by (subst tumalloc_loop.simps) auto
qed

lemma first_fit_None: "first_fit h sz prev xs = None \<longleftrightarrow> List.find (\<lambda>b. sz \<le> size_fb (h b)) xs = None"
  by (induction xs arbitrary: prev) auto

lemma first_fit_Some:
  "first_fit h sz prev xs = Some (p, c) \<Longrightarrow> List.find (\<lambda>b. sz \<le> size_fb (h b)) xs = Some c"
  by (induction xs arbitrary: prev) (auto split: if_splits)

lemma tumalloc_hit_ptr: "snd (tumalloc_hit s sz prev cur) = cur + sizeof_free_block"
  by (simp add: tumalloc_hit_def Let_def)

lemma brk_split: "brk (fst (split s b r)) = brk s"
  by (simp add: Spec2Isabelle.split_def Let_def)

lemma tumalloc_hit_brk: "brk (fst (tumalloc_hit s sz prev cur)) = brk s"
  by (simp add: tumalloc_hit_def Let_def brk_split)

text \<open>
  Claim C2 says that the arena is extended only when no block anywhere in the free list
  is large enough. In the state \<open>cursor_at_tail\<close> the free list holds the blocks
  \<open>0x1140\<close> (32 bytes) and \<open>0x1000\<close> (16 bytes) and the cursor is on the second
  one. \<open>tumalloc(32)\<close> scans from the cursor to the end of the list, never looks at
  the first block, which fits, and moves the break from \<open>0x1170\<close> to \<open>0x11A0\<close>.
\<close>

theorem tumalloc_grows_despite_fitting_block:
  "chain (heap cursor_at_tail) (HEAD cursor_at_tail) [0x1140, 0x1000]
   \<and> align_up 32 \<le> size_fb (heap cursor_at_tail 0x1140)
   \<and> tumalloc cursor_at_tail 32 = Some (grown_past_fit, 0x1180)
   \<and> brk cursor_at_tail = 0x1170 \<and> brk grown_past_fit = 0x11A0"
  by (simp add: eval_defs cursor_at_tail_def grown_past_fit_def)

text \<open>
  Claim C2 as amended: when the \<open>next\<close> links from the cursor (from \<open>HEAD\<close> if the
  cursor is \<open>NULL\<close>) reach \<open>NULL\<close>, \<open>tumalloc\<close> returns. If a block on that part
  of the list has a size of at least the aligned request, the result is the payload
  pointer of the first such block and the break stays where it is. Only if none has,
  \<open>tumalloc\<close> asks the operating system for the aligned size plus one header (the sum
  is taken in \<open>size_t\<close>): when the request is granted, the break moves up by that sum
  and the result is the payload pointer of the new block at the old break; when it is
  not, the result is \<open>NULL\<close> and nothing changes. Blocks in front of the cursor are
  not looked at.
\<close>

theorem tumalloc_scans_from_cursor:
  assumes "chain (heap s) (if next_fit_ptr s \<noteq> NULL then next_fit_ptr s else HEAD s) xs"
  shows "case List.find (\<lambda>b. align_up n \<le> size_fb (heap s b)) xs of
           Some b \<Rightarrow> (\<exists>s'. tumalloc s n = Some (s', b + sizeof_free_block) \<and> brk s' = brk s)
         | None \<Rightarrow>
             tumalloc s n =
               (if unat (brk s) + unat (align_up n + sizeof_free_block) \<le> unat (brk_max s)
                   \<and> brk s \<noteq> - 1
                then Some (s\<lparr>brk := brk s + (align_up n + sizeof_free_block),
                             heap := (heap s)(brk s :=
                               (heap s (brk s))\<lparr>size_fb := align_up n, next_fb := HEAD s\<rparr>),
                             next_fit_ptr := NULL\<rparr>,
                           brk s + sizeof_free_block)
                else Some (s, NULL))"
proof -
  have run: "tumalloc s n =
      Some (case first_fit (heap s) (align_up n) NULL xs of
              Some (p, c) \<Rightarrow> tumalloc_hit s (align_up n) p c
            | None \<Rightarrow> tumalloc_grow s (align_up n))"
    using tumalloc_loop_chain [OF assms, of "align_up n" NULL]
    by (simp add: tumalloc_def Let_def)
  show ?thesis
  proof (cases "first_fit (heap s) (align_up n) NULL xs")
    case None
    then have none: "List.find (\<lambda>b. align_up n \<le> size_fb (heap s b)) xs = None"
      by (simp add: first_fit_None)
    have grow: "tumalloc s n = Some (tumalloc_grow s (align_up n))"
      using run None by simp
    let ?incr = "align_up n + sizeof_free_block"
    show ?thesis
    proof (cases "unat (brk s) + unat ?incr \<le> unat (brk_max s)")
      case False
      then show ?thesis
        using none grow by (simp add: tumalloc_grow_def sbrk_def)
    next
      case granted: True
      show ?thesis
      proof (cases "brk s = - 1")
        case False
        then show ?thesis
          using none grow granted
          by (simp add: tumalloc_grow_def sbrk_def set_size_def set_next_def)
      next
        case True
        have "unat (brk_max s) < 2 ^ 64"
          using unsigned_less [of "brk_max s"] by simp
        moreover have "unat (brk s) = 2 ^ 64 - 1"
          using True by (simp add: unsigned_minus_1_eq_mask mask_eq_exp_minus_1)
        ultimately have "unat ?incr = 0"
          using granted by simp
        then have "?incr = 0"
          by (simp add: unat_eq_zero)
        then show ?thesis
          using none grow granted True by (simp add: tumalloc_grow_def sbrk_def)
      qed
    qed
  next
    case (Some pc)
    obtain p c where pc: "pc = (p, c)"
      by (cases pc)
    have found: "List.find (\<lambda>b. align_up n \<le> size_fb (heap s b)) xs = Some c"
      using Some pc by (simp add: first_fit_Some)
    have "tumalloc s n = Some (fst (tumalloc_hit s (align_up n) p c), c + sizeof_free_block)"
      using run Some pc tumalloc_hit_ptr [of s "align_up n" p c]
      by (simp add: prod_eq_iff)
    then show ?thesis
      using found tumalloc_hit_brk [of s "align_up n" p c] by simp
  qed
qed

theorem tumalloc_scans_from_cursor_witness:
  "chain (heap three_free)
     (if next_fit_ptr three_free \<noteq> NULL then next_fit_ptr three_free else HEAD three_free)
     [0x1140, 0x1060, 0x1000]
   \<and> List.find (\<lambda>b. align_up 64 \<le> size_fb (heap three_free b)) [0x1140, 0x1060, 0x1000]
       = Some 0x1060
   \<and> (\<exists>s'. tumalloc three_free 64 = Some (s', 0x1060 + sizeof_free_block)
         \<and> brk s' = brk three_free)
   \<and> List.find (\<lambda>b. align_up 256 \<le> size_fb (heap three_free b)) [0x1140, 0x1060, 0x1000]
       = None
   \<and> (\<exists>s'. tumalloc three_free 256 = Some (s', 0x1180) \<and> brk s' = 0x1280
         \<and> heap s' 0x1170 = \<lparr>size_fb = 256, next_fb = 0x1140\<rparr>)"
proof -
  have c: "chain (heap three_free)
     (if next_fit_ptr three_free \<noteq> NULL then next_fit_ptr three_free else HEAD three_free)
     [0x1140, 0x1060, 0x1000]"
    by (simp add: three_free_def)
  have f: "List.find (\<lambda>b. align_up 64 \<le> size_fb (heap three_free b)) [0x1140, 0x1060, 0x1000]
       = Some 0x1060"
    by (simp add: three_free_def align_up_def ALIGNMENT_def)
  have g: "List.find (\<lambda>b. align_up 256 \<le> size_fb (heap three_free b)) [0x1140, 0x1060, 0x1000]
       = None"
    by (simp add: three_free_def align_up_def ALIGNMENT_def)
  have a: "align_up 256 = 256"
    by (simp add: align_up_def ALIGNMENT_def)
  from tumalloc_scans_from_cursor [OF c, of 64]
  have hit: "\<exists>s'. tumalloc three_free 64 = Some (s', 0x1060 + sizeof_free_block)
         \<and> brk s' = brk three_free"
    unfolding f by simp
  from tumalloc_scans_from_cursor [OF c, of 256]
  have miss: "\<exists>s'. tumalloc three_free 256 = Some (s', 0x1180) \<and> brk s' = 0x1280
         \<and> heap s' 0x1170 = \<lparr>size_fb = 256, next_fb = 0x1140\<rparr>"
    unfolding g a by (simp add: three_free_def sizeof_free_block_def)
  from c f hit g miss show ?thesis
    by (intro conjI)
qed

text \<open>
  Claim C4 says that the remainder of a split stays in the free list. After
  \<open>do_alloc(64)\<close> the free list holds one block of 64 bytes at \<open>0x1000\<close>;
  \<open>tumalloc(16)\<close> splits it, writes the header of the remainder (32 bytes) at
  \<open>0x1020\<close> and returns \<open>0x1010\<close>, and the free list is empty afterwards: nothing
  links the remainder.
\<close>

theorem tumalloc_split_loses_remainder:
  "do_alloc empty_allocator 64 = Some (one_free_64, 0x1010)
   \<and> tumalloc one_free_64 16 = Some (after_split, 0x1010)
   \<and> heap after_split 0x1020 = \<lparr>size_fb = 32, next_fb = NULL\<rparr>
   \<and> HEAD after_split = NULL
   \<and> chain (heap after_split) (HEAD after_split) []"
  by (simp add: eval_defs empty_allocator_def one_free_64_def after_split_def)

section \<open>The Coalescer: what it merges and which links it changes\<close>

text \<open>On a chain, the two neighbour searches return, with the first match.\<close>

lemma find_prev_loop_chain:
  "chain h cur xs \<Longrightarrow>
   find_prev_loop h block cur =
     Some (case List.find (\<lambda>c. c + size_fb (h c) + sizeof_free_block = block) xs of
             Some c \<Rightarrow> c | None \<Rightarrow> NULL)"
proof (induction xs arbitrary: cur)
  case Nil
  then show ?case by (subst find_prev_loop.simps) simp
next
  case (Cons x xs)
  then show ?case by (subst find_prev_loop.simps) auto
qed

lemma find_next_loop_chain:
  "chain h cur xs \<Longrightarrow>
   find_next_loop h block_end cur =
     Some (case List.find (\<lambda>c. c = block_end) xs of Some c \<Rightarrow> c | None \<Rightarrow> NULL)"
proof (induction xs arbitrary: cur)
  case Nil
  then show ?case by (subst find_next_loop.simps) simp
next
  case (Cons x xs)
  then show ?case by (subst find_next_loop.simps) auto
qed

lemma chain_not_NULL: "chain h a xs \<Longrightarrow> NULL \<notin> set xs"
  by (induction xs arbitrary: a) auto


lemma find_pred_Some: "List.find P xs = Some x \<Longrightarrow> P x \<and> x \<in> set xs"
  by (induction xs) (auto split: if_splits)

lemma chain_upd: "u \<notin> set xs \<Longrightarrow> chain (h(u := v)) a xs = chain h a xs"
  by (induction xs arbitrary: a) auto

lemma chain_next_in:
  "chain h a xs \<Longrightarrow> P \<in> set xs \<Longrightarrow> next_fb (h P) = NULL \<or> next_fb (h P) \<in> set xs"
proof (induction xs arbitrary: a)
  case Nil
  then show ?case by simp
next
  case (Cons x xs)
  show ?case
  proof (cases "P = x")
    case True
    then show ?thesis
      using Cons.prems(1) by (cases xs) auto
  next
    case False
    then show ?thesis
      using Cons by auto
  qed
qed

lemma find_cong_set: "(\<And>x. x \<in> set xs \<Longrightarrow> P x = Q x) \<Longrightarrow> List.find P xs = List.find Q xs"
  by (induction xs) auto

lemma find_None_set: "(\<And>x. x \<in> set xs \<Longrightarrow> \<not> P x) \<Longrightarrow> List.find P xs = None"
  by (induction xs) auto

lemma coalesce_prev_hit:
  assumes "P \<noteq> NULL" and "P + size_fb (h P) + sizeof_free_block = B"
  shows "coalesce_prev h B P =
     (h(P := (h P)\<lparr>size_fb := size_fb (h P) + (size_fb (h B) + sizeof_free_block),
              next_fb := (if next_fb (h P) = B then next_fb (h B) else next_fb (h P))\<rparr>), P)"
  using assms by (auto simp: coalesce_prev_def Let_def set_size_def set_next_def)




section \<open>Growing the arena\<close>

lemma grant_facts:
  assumes "unat (brk s) + unat sz + unat sizeof_free_block \<le> unat (brk_max s)"
  shows "unat (sz + sizeof_free_block) = unat sz + unat sizeof_free_block"
    and "unat (brk s + sz + sizeof_free_block) = unat (brk s) + unat sz + unat sizeof_free_block"
    and "brk s \<noteq> - 1"
    and "sz + sizeof_free_block \<noteq> 0"
    and "brk s < brk s + sz + sizeof_free_block"
proof -
  have m: "unat (brk_max s) < 2 ^ 64"
    using unsigned_less [of "brk_max s"] by simp
  have h: "unat sizeof_free_block = 16"
    by (simp add: sizeof_free_block_def)
  show a: "unat (sz + sizeof_free_block) = unat sz + unat sizeof_free_block"
    using assms m by (intro unat_add_lem [THEN iffD1]) simp
  have "unat (brk s + sz) = unat (brk s) + unat sz"
    using assms m by (intro unat_add_lem [THEN iffD1]) simp
  moreover have "unat (brk s + sz + sizeof_free_block) = unat (brk s + sz) + unat sizeof_free_block"
    using assms m calculation by (intro unat_add_lem [THEN iffD1]) simp
  ultimately show b: "unat (brk s + sz + sizeof_free_block) = unat (brk s) + unat sz + unat sizeof_free_block"
    by simp
  show "brk s \<noteq> - 1"
  proof
    assume "brk s = - 1"
    then have "unat (brk s) = 2 ^ 64 - 1"
      by (simp add: unsigned_minus_1_eq_mask mask_eq_exp_minus_1)
    then show False
      using assms m h by simp
  qed
  show "sz + sizeof_free_block \<noteq> 0"
  proof
    assume "sz + sizeof_free_block = 0"
    then have "unat (sz + sizeof_free_block) = 0"
      by simp
    then show False
      using a h by simp
  qed
  show "brk s < brk s + sz + sizeof_free_block"
    using b h by (simp add: word_less_nat_alt)
qed

lemma sbrk_granted:
  assumes "unat (brk s) + unat sz + unat sizeof_free_block \<le> unat (brk_max s)"
  shows "sbrk s (sz + sizeof_free_block) = (s\<lparr>brk := brk s + (sz + sizeof_free_block)\<rparr>, brk s)"
  using assms grant_facts(1) [OF assms] by (simp add: sbrk_def)

lemma tumalloc_miss_grows:
  assumes grant: "unat (brk s) + unat (align_up n) + unat sizeof_free_block \<le> unat (brk_max s)"
    and scan: "chain (heap s) (if next_fit_ptr s \<noteq> NULL then next_fit_ptr s else HEAD s) ys"
    and miss: "\<forall>b \<in> set ys. size_fb (heap s b) < align_up n"
  shows "tumalloc s n =
     Some (s\<lparr>brk := brk s + (align_up n + sizeof_free_block),
             heap := (heap s)(brk s := (heap s (brk s))\<lparr>size_fb := align_up n, next_fb := HEAD s\<rparr>),
             next_fit_ptr := NULL\<rparr>,
           brk s + sizeof_free_block)"
proof -
  have "List.find (\<lambda>b. align_up n \<le> size_fb (heap s b)) ys = None"
    using miss by (intro find_None_set) auto
  then have "first_fit (heap s) (align_up n) NULL ys = None"
    by (simp add: first_fit_None)
  then have "tumalloc s n = Some (tumalloc_grow s (align_up n))"
    using tumalloc_loop_chain [OF scan, of "align_up n" NULL]
    by (simp add: tumalloc_def Let_def)
  then show ?thesis
    using sbrk_granted [OF grant] grant_facts(3) [OF grant]
    by (simp add: tumalloc_grow_def set_size_def set_next_def)
qed

lemma do_alloc_links_and_coalesces:
  assumes grant: "unat (brk s) + unat sz + unat sizeof_free_block \<le> unat (brk_max s)"
    and nn: "brk s \<noteq> NULL"
    and list: "chain (heap s) (HEAD s) xs"
    and below: "\<forall>b \<in> set xs. b < brk s"
  shows "\<exists>s'. do_alloc s sz = Some (s', brk s + sizeof_free_block)
       \<and> next_fit_ptr s' = next_fit_ptr s
       \<and> brk s' = brk s + (sz + sizeof_free_block)
       \<and> (case List.find (\<lambda>c. c + size_fb (heap s c) + sizeof_free_block = brk s) xs of
            None \<Rightarrow> HEAD s' = brk s
              \<and> heap s' = (heap s)(brk s := (heap s (brk s))\<lparr>size_fb := sz, next_fb := HEAD s\<rparr>)
              \<and> chain (heap s') (HEAD s') (brk s # xs)
          | Some P \<Rightarrow> HEAD s' = P
              \<and> heap s' = (heap s)(brk s := (heap s (brk s))\<lparr>size_fb := sz, next_fb := HEAD s\<rparr>,
                                   P := (heap s P)\<lparr>size_fb := size_fb (heap s P) + (sz + sizeof_free_block)\<rparr>))"
proof -
  let ?nb = "brk s"
  let ?h2 = "(heap s)(?nb := (heap s ?nb)\<lparr>size_fb := sz, next_fb := HEAD s\<rparr>)"
  let ?s2 = "s\<lparr>brk := brk s + (sz + sizeof_free_block), heap := ?h2, HEAD := ?nb\<rparr>"
  let ?e = "?nb + sz + sizeof_free_block"
  note g = grant_facts [OF grant]
  have fresh: "?nb \<notin> set xs"
    using below by auto
  have c2: "chain (heap ?s2) (HEAD ?s2) (?nb # xs)"
    using nn list fresh by (simp add: chain_upd)
  have unfold: "do_alloc s sz =
      do { (s3, r) \<leftarrow> coalesce ?s2 ?nb; Some (s3\<lparr>HEAD := r\<rparr>, ?nb + sizeof_free_block) }"
    using sbrk_granted [OF grant] g(3)
    by (simp add: do_alloc_def set_size_def set_next_def Let_def)
  have "List.find (\<lambda>c. c + size_fb (?h2 c) + sizeof_free_block = ?nb) xs
      = List.find (\<lambda>c. c + size_fb (heap s c) + sizeof_free_block = ?nb) xs"
    using fresh by (intro find_cong_set) auto
  moreover have "?nb + sz + sizeof_free_block \<noteq> ?nb"
    using g(4) by (simp add: add.assoc)
  ultimately have fp: "find_prev ?s2 ?nb =
      Some (case List.find (\<lambda>c. c + size_fb (heap s c) + sizeof_free_block = ?nb) xs of
              Some c \<Rightarrow> c | None \<Rightarrow> NULL)"
    using find_prev_loop_chain [OF c2, of ?nb] by (simp add: find_prev_def)
  have "List.find (\<lambda>c. c = ?e) (?nb # xs) = None"
  proof (intro find_None_set)
    fix x assume "x \<in> set (?nb # xs)"
    then have "x \<le> ?nb"
      using below by auto
    then show "x \<noteq> ?e"
      using g(5) by auto
  qed
  then have fn: "find_next ?s2 ?nb = Some NULL"
    using find_next_loop_chain [OF c2, of ?e] by (simp add: find_next_def Let_def)
  show ?thesis
  proof (cases "List.find (\<lambda>c. c + size_fb (heap s c) + sizeof_free_block = ?nb) xs")
    case None
    then have "coalesce ?s2 ?nb = Some (?s2, ?nb)"
      using nn fp fn by (simp add: coalesce_def coalesce_prev_def coalesce_next_def)
    then show ?thesis
      using unfold None c2 by simp
  next
    case (Some P)
    have P: "P + size_fb (heap s P) + sizeof_free_block = ?nb" "P \<in> set xs"
      using find_pred_Some [OF Some] by blast+
    have Pn: "P \<noteq> NULL"
      using chain_not_NULL [OF list] P(2) by auto
    have Pf: "P \<noteq> ?nb"
      using fresh P(2) by auto
    have nx: "next_fb (heap s P) \<noteq> ?nb"
      using chain_next_in [OF list P(2)] nn fresh by auto
    have "P + size_fb (?h2 P) + sizeof_free_block = ?nb"
      using P(1) Pf by simp
    then have cp: "coalesce_prev ?h2 ?nb P =
       (?h2(P := (?h2 P)\<lparr>size_fb := size_fb (?h2 P) + (size_fb (?h2 ?nb) + sizeof_free_block),
                next_fb := (if next_fb (?h2 P) = ?nb then next_fb (?h2 ?nb) else next_fb (?h2 P))\<rparr>), P)"
      using Pn by (intro coalesce_prev_hit)
    have "coalesce ?s2 ?nb = Some (?s2\<lparr>heap := fst (coalesce_prev ?h2 ?nb P)\<rparr>, P)"
      using nn fp fn Some cp by (simp add: coalesce_def coalesce_next_def)
    moreover have "fst (coalesce_prev ?h2 ?nb P) =
        ?h2(P := (heap s P)\<lparr>size_fb := size_fb (heap s P) + (sz + sizeof_free_block)\<rparr>)"
      using cp Pf nx by simp
    ultimately show ?thesis
      using unfold Some by simp
  qed
qed

text \<open>
  Claim C7 says that on a miss of \<open>tumalloc\<close> the new block is linked at the head of
  the free list and coalesced. In the state \<open>one_free_16\<close> the free list holds the
  block \<open>0x1000\<close>, which ends at the break \<open>0x1020\<close>. \<open>tumalloc(32)\<close> misses and
  gets the block \<open>0x1020\<close> from the operating system; afterwards the free list still
  holds only \<open>0x1000\<close>, with its size of 16: the new block is neither linked nor
  merged with its neighbour.
\<close>

theorem tumalloc_miss_neither_links_nor_coalesces:
  "chain (heap one_free_16) (HEAD one_free_16) [0x1000]
   \<and> adjacent (heap one_free_16) 0x1000 (brk one_free_16)
   \<and> tumalloc one_free_16 32 = Some (grown_after_miss, 0x1030)
   \<and> chain (heap grown_after_miss) (HEAD grown_after_miss) [0x1000]
   \<and> size_fb (heap grown_after_miss 0x1000) = 16"
  by (simp add: eval_defs adjacent_def one_free_16_def grown_after_miss_def)

text \<open>
  Claim C7 as amended. Let the operating system grant the aligned request plus a
  header, let the part of the free list that \<open>tumalloc\<close> scans be a chain with no block
  of at least the aligned size, and let the free list be a chain of blocks below the
  break. Then \<open>tumalloc\<close> itself writes the header of the new block at the old break
  (the aligned size; next is the list head), resets the cursor to \<open>NULL\<close>, so that the
  next scan starts at the list head, and returns the payload pointer; it changes neither
  \<open>HEAD\<close> nor any other header: the block is not linked and \<open>coalesce\<close> does not
  run. The Arena Extender \<open>do_alloc\<close>, which \<open>tumalloc\<close> does not call, is what
  writes the header, links the block at the list head and runs \<open>coalesce\<close> on it: if
  a block \<open>P\<close> of the list ends at the old break, \<open>P\<close> absorbs the new block and
  becomes the list head, otherwise the new block is the head of the list, in front of
  the old blocks; \<open>do_alloc\<close> leaves the cursor as it is.
\<close>

theorem miss_grows_unlinked_extender_links:
  assumes "unat (brk s) + unat (align_up n) + unat sizeof_free_block \<le> unat (brk_max s)"
    and "brk s \<noteq> NULL"
    and "chain (heap s) (if next_fit_ptr s \<noteq> NULL then next_fit_ptr s else HEAD s) ys"
    and "\<forall>b \<in> set ys. size_fb (heap s b) < align_up n"
    and "chain (heap s) (HEAD s) xs"
    and "\<forall>b \<in> set xs. b < brk s"
  shows "tumalloc s n =
       Some (s\<lparr>brk := brk s + (align_up n + sizeof_free_block),
               heap := (heap s)(brk s :=
                 (heap s (brk s))\<lparr>size_fb := align_up n, next_fb := HEAD s\<rparr>),
               next_fit_ptr := NULL\<rparr>,
             brk s + sizeof_free_block)
     \<and> (\<exists>s'. do_alloc s (align_up n) = Some (s', brk s + sizeof_free_block)
          \<and> next_fit_ptr s' = next_fit_ptr s
          \<and> brk s' = brk s + (align_up n + sizeof_free_block)
          \<and> (case List.find (\<lambda>c. c + size_fb (heap s c) + sizeof_free_block = brk s) xs of
               None \<Rightarrow> HEAD s' = brk s
                 \<and> heap s' = (heap s)(brk s :=
                     (heap s (brk s))\<lparr>size_fb := align_up n, next_fb := HEAD s\<rparr>)
                 \<and> chain (heap s') (HEAD s') (brk s # xs)
             | Some P \<Rightarrow> HEAD s' = P
                 \<and> heap s' = (heap s)(brk s :=
                     (heap s (brk s))\<lparr>size_fb := align_up n, next_fb := HEAD s\<rparr>,
                     P := (heap s P)\<lparr>size_fb :=
                       size_fb (heap s P) + (align_up n + sizeof_free_block)\<rparr>)))"
  using tumalloc_miss_grows [OF assms(1) assms(3) assms(4)]
    do_alloc_links_and_coalesces [OF assms(1) assms(2) assms(5) assms(6)]
  by (intro conjI)

theorem miss_grows_unlinked_extender_links_witness:
  "unat (brk one_free_16) + unat (align_up 32) + unat sizeof_free_block
     \<le> unat (brk_max one_free_16)
   \<and> brk one_free_16 \<noteq> NULL
   \<and> chain (heap one_free_16) (HEAD one_free_16) [0x1000]
   \<and> size_fb (heap one_free_16 0x1000) < align_up 32
   \<and> (0x1000 :: addr) < brk one_free_16
   \<and> tumalloc one_free_16 32 = Some (grown_after_miss, 0x1030)
   \<and> (\<exists>s'. do_alloc one_free_16 32 = Some (s', 0x1030)
         \<and> HEAD s' = 0x1000 \<and> size_fb (heap s' 0x1000) = 64)"
proof -
  have g: "unat (brk one_free_16) + unat (align_up 32) + unat sizeof_free_block
     \<le> unat (brk_max one_free_16)"
    by (simp add: one_free_16_def align_up_def ALIGNMENT_def sizeof_free_block_def)
  have b: "brk one_free_16 \<noteq> NULL"
    by (simp add: one_free_16_def)
  have c: "chain (heap one_free_16) (HEAD one_free_16) [0x1000]"
    by (simp add: one_free_16_def)
  then have c': "chain (heap one_free_16)
      (if next_fit_ptr one_free_16 \<noteq> NULL then next_fit_ptr one_free_16 else HEAD one_free_16)
      [0x1000]"
    by (simp add: one_free_16_def)
  have m: "size_fb (heap one_free_16 0x1000) < align_up 32"
    by (simp add: one_free_16_def align_up_def ALIGNMENT_def)
  then have m': "\<forall>b \<in> set [0x1000]. size_fb (heap one_free_16 b) < align_up 32"
    by simp
  have l: "(0x1000 :: addr) < brk one_free_16"
    by (simp add: one_free_16_def)
  then have l': "\<forall>b \<in> set [0x1000 :: addr]. b < brk one_free_16"
    by simp
  have a: "align_up 32 = 32"
    by (simp add: align_up_def ALIGNMENT_def)
  have f: "List.find (\<lambda>c. c + size_fb (heap one_free_16 c) + sizeof_free_block = brk one_free_16)
      [0x1000] = Some 0x1000"
    by (simp add: one_free_16_def sizeof_free_block_def)
  from miss_grows_unlinked_extender_links [OF g b c' m' c l']
  have r: "tumalloc one_free_16 32 = Some (grown_after_miss, 0x1030)
     \<and> (\<exists>s'. do_alloc one_free_16 32 = Some (s', 0x1030)
         \<and> HEAD s' = 0x1000 \<and> size_fb (heap s' 0x1000) = 64)"
    unfolding f a by (auto simp: one_free_16_def grown_after_miss_def sizeof_free_block_def)
  show ?thesis
    using g b c m l r by blast
qed

section \<open>The free list under allocate and release\<close>

text \<open>
  From the allocator at program start, every sequence of \<open>tumalloc\<close> and \<open>tufree\<close>
  calls returns and leaves the free list empty: \<open>tumalloc\<close> never links a block and
  \<open>tufree\<close> does nothing.
\<close>

lemma tumalloc_grow_globals:
  "HEAD (fst (tumalloc_grow s sz)) = HEAD s"
  "next_fit_ptr s = NULL \<Longrightarrow> next_fit_ptr (fst (tumalloc_grow s sz)) = NULL"
  by (simp_all add: tumalloc_grow_def sbrk_def Let_def)

lemma tumalloc_empty_list:
  "HEAD s = NULL \<Longrightarrow> next_fit_ptr s = NULL \<Longrightarrow>
   tumalloc s n = Some (tumalloc_grow s (align_up n))"
  by (simp add: tumalloc_def Let_def tumalloc_loop.simps)

lemma run_keeps_list_empty:
  "HEAD s = NULL \<Longrightarrow> next_fit_ptr s = NULL \<Longrightarrow>
   \<exists>s'. run s rs = Some s' \<and> HEAD s' = NULL \<and> next_fit_ptr s' = NULL"
proof (induction rs arbitrary: s)
  case Nil
  then show ?case by simp
next
  case (Cons r rs)
  show ?case
  proof (cases r)
    case (Allocate n)
    obtain s1 p where g: "tumalloc_grow s (align_up n) = (s1, p)"
      by (cases "tumalloc_grow s (align_up n)")
    have "HEAD s1 = NULL" "next_fit_ptr s1 = NULL"
      using tumalloc_grow_globals [of s "align_up n"] g Cons.prems by simp_all
    then obtain s' where "run s1 rs = Some s'" "HEAD s' = NULL" "next_fit_ptr s' = NULL"
      using Cons.IH by blast
    then show ?thesis
      using Allocate g tumalloc_empty_list [OF Cons.prems, of n] by simp
  next
    case (Release p)
    then show ?thesis
      using Cons.IH [of s] Cons.prems by (simp add: tufree_def)
  qed
qed

text \<open>
  Claim C9 says that no two address-adjacent blocks are free at the same time, because
  coalescing is applied whenever that could happen. After \<open>tumalloc(16)\<close> and
  \<open>tumalloc(32)\<close> on the allocator at program start returned \<open>0x1010\<close> and
  \<open>0x1030\<close>, and both pointers were released, the block at \<open>0x1000\<close> ends where
  the block at \<open>0x1020\<close> begins, both are released, and they are still two blocks of
  16 and 32 bytes: \<open>tufree\<close> is empty, nothing calls \<open>coalesce\<close>. The free list
  holds no adjacent blocks only because it holds no block at all.
\<close>

theorem released_neighbours_stay_unmerged:
  "run empty_allocator [Allocate 16, Allocate 32, Release 0x1010, Release 0x1030]
     = Some two_released
   \<and> adjacent (heap two_released) 0x1000 0x1020
   \<and> size_fb (heap two_released 0x1000) = 16
   \<and> size_fb (heap two_released 0x1020) = 32
   \<and> HEAD two_released = NULL
   \<and> chain (heap two_released) (HEAD two_released) []"
  by (simp add: eval_defs tufree_def adjacent_def empty_allocator_def two_released_def)

end
